theory Spec2Isabelle
  imports Main "HOL-Library.Sublist" "HOL-Library.AList"
begin

section \<open>Values and strings of the extractor\<close>

text \<open>
  The program (\<^verbatim>\<open>index.js\<close>) reads JSON documents of the WordPress REST API and writes
  one flat record per content item. A JavaScript string is modelled as a \<^typ>\<open>string\<close>,
  one \<^typ>\<open>char\<close> per code unit, so that \<^term>\<open>length\<close> is the source's
  \<^verbatim>\<open>.length\<close>. A property that may be \<^verbatim>\<open>undefined\<close> is an
  \<^typ>\<open>'a option\<close>. A value that is only copied into the report is a \<open>cell\<close>.
\<close>

datatype cell = Undefined | Str string | Num int

text \<open>An error value caught by \<^verbatim>\<open>catch (error)\<close>: an HTTP response with a
  status, a request without a response, or a \<^verbatim>\<open>TypeError\<close>; each carries its
  message.\<close>

datatype js_error = HttpError nat string | NetworkError string | TypeError string

fun error_message :: "js_error \<Rightarrow> string" where
  "error_message (HttpError st m) = m"
| "error_message (NetworkError m) = m"
| "error_message (TypeError m) = m"

text \<open>\<^verbatim>\<open>error.response && error.response.status === 404\<close>\<close>

fun is_not_found :: "js_error \<Rightarrow> bool" where
  "is_not_found (HttpError st m) = (st = 404)"
| "is_not_found (NetworkError m) = False"
| "is_not_found (TypeError m) = False"

text \<open>Decimal rendering of a number inside a template literal; \<open>digit_char\<close> is only
  applied to a digit below ten.\<close>

definition digit_char :: "nat \<Rightarrow> char" where
  "digit_char d = ''0123456789'' ! d"

fun string_of_nat :: "nat \<Rightarrow> string" where
  "string_of_nat n =
     (if n < 10 then [digit_char n] else string_of_nat (n div 10) @ [digit_char (n mod 10)])"

declare string_of_nat.simps [simp del]

definition string_of_int :: "int \<Rightarrow> string" where
  "string_of_int i = (if i < 0 then CHR ''-'' # string_of_nat (nat (- i)) else string_of_nat (nat i))"

text \<open>\<^verbatim>\<open>xs.join(sep)\<close> on an array of strings.\<close>

fun join :: "string \<Rightarrow> string list \<Rightarrow> string" where
  "join sep [] = []"
| "join sep [x] = x"
| "join sep (x # y # ys) = x @ sep @ join sep (y # ys)"

text \<open>\<^verbatim>\<open>s || ''\<close> for an optional string: the empty string is the only falsy string.\<close>

definition or_empty :: "string option \<Rightarrow> string" where
  "or_empty s = (case s of None \<Rightarrow> [] | Some t \<Rightarrow> t)"

text \<open>\<^verbatim>\<open>s.split(sep).length - 1\<close>: the separators found from left to right, without
  overlap.\<close>

function count_sep :: "string \<Rightarrow> string \<Rightarrow> nat" where
  "count_sep sep [] = 0"
| "count_sep sep (c # cs) =
     (if sep \<noteq> [] \<and> prefix sep (c # cs)
      then Suc (count_sep sep (drop (length sep) (c # cs)))
      else count_sep sep cs)"
  by pat_completeness auto
termination
  by (relation "measure (\<lambda>(sep, s). length s)") (auto simp: neq_Nil_conv)

text \<open>\<^verbatim>\<open>s.replace(/<[^>]+>/g, '')\<close>: at a \<^verbatim>\<open><\<close>, the tag is removed when
  at least one character other than \<^verbatim>\<open>>\<close> follows and a \<^verbatim>\<open>>\<close> closes the
  run; the scan goes on behind the tag.\<close>

function strip_tags :: "string \<Rightarrow> string" where
  "strip_tags [] = []"
| "strip_tags (c # cs) =
     (if c = CHR ''<'' \<and> takeWhile (\<lambda>d. d \<noteq> CHR ''>'') cs \<noteq> []
         \<and> dropWhile (\<lambda>d. d \<noteq> CHR ''>'') cs \<noteq> []
      then strip_tags (tl (dropWhile (\<lambda>d. d \<noteq> CHR ''>'') cs))
      else c # strip_tags cs)"
  by pat_completeness auto
termination
proof (relation "measure length")
  show "wf (measure length)" by simp
next
  fix c :: char and cs :: string
  have "length (tl (dropWhile (\<lambda>d. d \<noteq> CHR ''>'') cs)) \<le> length cs"
    using length_dropWhile_le [of "\<lambda>d. d \<noteq> CHR ''>''" cs] by simp
  then show "(tl (dropWhile (\<lambda>d. d \<noteq> CHR ''>'') cs), c # cs) \<in> measure length"
    by simp
next
  fix c :: char and cs :: string
  show "(cs, c # cs) \<in> measure length" by simp
qed

text \<open>\<^verbatim>\<open>s.trim()\<close>: the white space and line terminators among the first 256 code
  units.\<close>

definition is_space :: "char \<Rightarrow> bool" where
  "is_space c = (of_char c \<in> {9, 10, 11, 12, 13, 32, 160 :: nat})"

definition trim :: "string \<Rightarrow> string" where
  "trim s = rev (dropWhile is_space (rev (dropWhile is_space s)))"

section \<open>Content items\<close>

text \<open>An object with the one property \<^verbatim>\<open>rendered\<close> (the item's title and excerpt).\<close>

record rendered_obj =
  rendered :: "string option"

text \<open>\<^verbatim>\<open>@type\<close> of a node of the structured-data graph is one name or a list of
  names; \<^verbatim>\<open>keywords\<close> is a list of strings or one string.\<close>

datatype at_type = TypeName string | TypeNames "string list"

datatype keywords_value = KeywordList "string list" | Keyword string

record graph_node =
  node_type :: "at_type option"
  node_keywords :: "keywords_value option"
  node_wordCount :: "int option"
  node_headline :: "string option"

record og_image_obj =
  og_url :: "string option"

record yoast =
  yoast_title :: "string option"
  yoast_description :: "string option"
  yoast_og_image :: "og_image_obj list option"
  yoast_schema :: "graph_node list option option"
  yoast_og_title :: cell
  yoast_og_description :: cell
  yoast_twitter_title :: cell
  yoast_twitter_description :: cell
  yoast_twitter_image :: cell
  yoast_canonical :: cell

text \<open>\<open>yoast_schema\<close> is \<open>None\<close> without a \<^verbatim>\<open>schema\<close> object, \<open>Some None\<close> for a
  schema without \<^verbatim>\<open>@graph\<close>.\<close>

record content_item =
  item_postType :: cell
  item_id :: cell
  item_title :: "rendered_obj option"
  item_author :: "int option"
  item_date_gmt :: cell
  item_modified_gmt :: cell
  item_link :: cell
  item_status :: cell
  item_excerpt :: "rendered_obj option"
  item_comment_status :: cell
  item_template :: cell
  item_categories :: "int list option"
  item_tags :: "int list option"
  item_featured_media :: "int option"
  item_yoast_head_json :: "yoast option"

text \<open>The result of \<^verbatim>\<open>getFeaturedImageData\<close>.\<close>

record image_data =
  img_url :: string
  img_alt :: string

section \<open>The site, the console and the state of a run\<close>

text \<open>The reference caches are JavaScript \<^verbatim>\<open>Map\<close>s: association lists in insertion
  order, \<^verbatim>\<open>get\<close> is \<^const>\<open>map_of\<close>, \<^verbatim>\<open>set\<close> is \<^const>\<open>AList.update\<close> and
  \<^verbatim>\<open>size\<close> is the length.\<close>

type_synonym name_cache = "(int \<times> string) list"

type_synonym row = "(string \<times> cell) list"

definition column :: "row \<Rightarrow> string \<Rightarrow> cell option" where
  "column r name = map_of r name"

text \<open>The bodies of the responses. \<open>x_wp_totalpages\<close> is the value of
  \<^verbatim>\<open>parseInt(response.headers['x-wp-totalpages'], 10)\<close>, \<open>None\<close> when that is
  \<^verbatim>\<open>NaN\<close>.\<close>

record media_response =
  source_url :: "string option"
  alt_text :: "string option"

record term_item =
  term_id :: int
  term_name :: string

record 'a page_response =
  x_wp_totalpages :: "int option"
  x_wp_total :: cell
  page_data :: "'a list"

record post_type =
  viewable :: bool
  rest_base :: "string option"

text \<open>A request names the endpoint with its \<^verbatim>\<open>per_page\<close> and \<^verbatim>\<open>page\<close>
  parameters, a media id, or the types listing.\<close>

datatype request = GetPage string nat nat | GetMedia int | GetTypes

text \<open>The authenticated client of \<^verbatim>\<open>setupApiClient\<close> is the site behind it: the answer
  to each kind of request, which may depend on the number of requests issued before it.
  \<open>Inl\<close> is a rejected request.\<close>

record server =
  get_terms :: "nat \<Rightarrow> string \<Rightarrow> nat \<Rightarrow> js_error + term_item page_response"
  get_media :: "nat \<Rightarrow> int \<Rightarrow> js_error + media_response"
  get_types :: "nat \<Rightarrow> js_error + post_type list"
  get_items :: "nat \<Rightarrow> string \<Rightarrow> nat \<Rightarrow> js_error + content_item page_response"

text \<open>The lines written to the console, each with the values its template interpolates.\<close>

datatype message =
    Banner
  | FetchingAll string
  | Cached nat string
  | CouldNotFetch string string
  | CouldNotFetchMedia int string
  | Discovering
  | FoundPostTypes "string list"
  | DefaultPostTypes
  | FatalPostTypes string
  | StartingFetch string
  | FoundItems cell int
  | FetchedPage nat int nat
  | NoItemsFound string
  | ErrorFetchingData string string
  | NoDataExtracted
  | ProcessingData
  | ReportSaved string
  | ErrorSavingReport string
  | UnexpectedError js_error

datatype console_line = Log message | Warn message | Error message

text \<open>The module's global variables, the requests issued so far, the console and the file
  system.\<close>

record world =
  authorCache :: name_cache
  categoryCache :: name_cache
  tagCache :: name_cache
  mediaCache :: "(int \<times> image_data) list"
  siteDomain :: "string option"
  requests :: "request list"
  console :: "console_line list"
  directories :: "string list"
  files :: "(string \<times> string) list"

definition initial_world :: world where
  "initial_world = \<lparr> authorCache = [], categoryCache = [], tagCache = [], mediaCache = [],
     siteDomain = None, requests = [], console = [], directories = [], files = [] \<rparr>"

definition say :: "console_line \<Rightarrow> world \<Rightarrow> world" where
  "say l w = w \<lparr> console := console w @ [l] \<rparr>"

definition send :: "request \<Rightarrow> world \<Rightarrow> world" where
  "send q w = w \<lparr> requests := requests w @ [q] \<rparr>"

text \<open>What the program takes from its libraries and surroundings: \<^verbatim>\<open>Papa.unparse\<close>,
  \<^verbatim>\<open>path.join\<close>, the text of \<^verbatim>\<open>new Date().toISOString()\<close>, and whether
  \<^verbatim>\<open>fs.mkdir\<close> and \<^verbatim>\<open>fs.writeFile\<close> fail.\<close>

record environment =
  unparse :: "row list \<Rightarrow> string"
  path_join :: "string \<Rightarrow> string \<Rightarrow> string"
  now_iso :: string
  mkdir_error :: "string \<Rightarrow> js_error option"
  writeFile_error :: "string \<Rightarrow> string \<Rightarrow> js_error option"

record credentials =
  domain :: string
  username :: string
  appPassword :: string

section \<open>The row flattener (the callback of \<^verbatim>\<open>createAndSaveReport\<close>)\<close>

text \<open>The empty object \<^verbatim>\<open>{}\<close> that stands in for a missing SEO blob or graph node.\<close>

definition empty_yoast :: yoast where
  "empty_yoast = \<lparr> yoast_title = None, yoast_description = None, yoast_og_image = None,
     yoast_schema = None, yoast_og_title = Undefined, yoast_og_description = Undefined,
     yoast_twitter_title = Undefined, yoast_twitter_description = Undefined,
     yoast_twitter_image = Undefined, yoast_canonical = Undefined \<rparr>"

definition empty_node :: graph_node where
  "empty_node = \<lparr> node_type = None, node_keywords = None, node_wordCount = None,
     node_headline = None \<rparr>"

definition yoastData :: "content_item \<Rightarrow> yoast" where
  "yoastData item = (case item_yoast_head_json item of None \<Rightarrow> empty_yoast | Some y \<Rightarrow> y)"

definition graph :: "content_item \<Rightarrow> graph_node list" where
  "graph item =
     (case yoast_schema (yoastData item) of
        None \<Rightarrow> []
      | Some None \<Rightarrow> []
      | Some (Some g) \<Rightarrow> g)"

definition article :: "content_item \<Rightarrow> graph_node" where
  "article item =
     (case find (\<lambda>g. node_type g = Some (TypeName ''Article'')) (graph item) of
        None \<Rightarrow> empty_node | Some g \<Rightarrow> g)"

definition webpage :: "content_item \<Rightarrow> graph_node" where
  "webpage item =
     (case find (\<lambda>g. node_type g = Some (TypeName ''WebPage'')) (graph item) of
        None \<Rightarrow> empty_node | Some g \<Rightarrow> g)"

definition focusKeyphrase :: "content_item \<Rightarrow> string" where
  "focusKeyphrase item =
     (case node_keywords (article item) of
        Some (KeywordList ks) \<Rightarrow> join '', '' ks
      | Some (Keyword k) \<Rightarrow> k
      | None \<Rightarrow> [])"

definition wordCount :: "content_item \<Rightarrow> cell" where
  "wordCount item =
     (case node_wordCount (webpage item) of
        None \<Rightarrow> Str []
      | Some n \<Rightarrow> if n = 0 then Str [] else Num n)"

definition hasMultipleH1s :: "content_item \<Rightarrow> bool" where
  "hasMultipleH1s item = (count_sep ''</h1>'' (or_empty (node_headline (webpage item))) > 1)"

text \<open>\<^verbatim>\<open>yoastData.og_image && yoastData.og_image[0]\<close>: an empty array is truthy and
  has no first element.\<close>

definition ogImageObject :: "content_item \<Rightarrow> og_image_obj option" where
  "ogImageObject item =
     (case yoast_og_image (yoastData item) of
        None \<Rightarrow> None
      | Some [] \<Rightarrow> None
      | Some (x # xs) \<Rightarrow> Some x)"

definition yoastTitle :: "content_item \<Rightarrow> string" where
  "yoastTitle item = or_empty (yoast_title (yoastData item))"

definition yoastDesc :: "content_item \<Rightarrow> string" where
  "yoastDesc item = or_empty (yoast_description (yoastData item))"

text \<open>\<^verbatim>\<open>cache.get(id) || `ID:${id}`\<close>\<close>

definition resolve :: "name_cache \<Rightarrow> int \<Rightarrow> string" where
  "resolve cache i =
     (case map_of cache i of
        None \<Rightarrow> ''ID:'' @ string_of_int i
      | Some n \<Rightarrow> if n = [] then ''ID:'' @ string_of_int i else n)"

definition or_nil :: "int list option \<Rightarrow> int list" where
  "or_nil xs = (case xs of None \<Rightarrow> [] | Some ys \<Rightarrow> ys)"

definition categoryNames :: "world \<Rightarrow> content_item \<Rightarrow> string" where
  "categoryNames w item =
     join '', '' (map (resolve (categoryCache w)) (or_nil (item_categories item)))"

definition tagNames :: "world \<Rightarrow> content_item \<Rightarrow> string" where
  "tagNames w item = join '', '' (map (resolve (tagCache w)) (or_nil (item_tags item)))"

text \<open>\<^verbatim>\<open>authorCache.get(item.author) || `ID:${item.author}`\<close>: a missing author is
  looked up as \<^verbatim>\<open>undefined\<close> and printed so.\<close>

definition authorName :: "world \<Rightarrow> content_item \<Rightarrow> string" where
  "authorName w item =
     (case item_author item of
        None \<Rightarrow> ''ID:undefined''
      | Some a \<Rightarrow> resolve (authorCache w) a)"

definition has_og_url :: "content_item \<Rightarrow> bool" where
  "has_og_url item =
     (case ogImageObject item of
        None \<Rightarrow> False
      | Some obj \<Rightarrow> (case og_url obj of None \<Rightarrow> False | Some u \<Rightarrow> u \<noteq> []))"

definition totalPossibleScore :: nat where
  "totalPossibleScore = 7"

definition completenessScore :: "image_data \<Rightarrow> content_item \<Rightarrow> nat" where
  "completenessScore featuredImageData item =
     (let s0 = 0;
          s1 = (if length (or_nil (item_categories item)) > 0 then s0 + 1 else s0);
          s2 = (if length (or_nil (item_tags item)) > 0 then s1 + 1 else s1);
          s3 = (if img_url featuredImageData \<noteq> [] \<and> \<not> prefix ''Error'' (img_url featuredImageData)
                then s2 + 1 else s2);
          s4 = (if img_alt featuredImageData \<noteq> [] then s3 + 1 else s3);
          s5 = (if yoastDesc item \<noteq> [] then s4 + 1 else s4);
          s6 = (if focusKeyphrase item \<noteq> [] then s5 + 1 else s5);
          s7 = (if has_og_url item then s6 + 1 else s6)
      in s7)"

definition isTitleTooLong :: "content_item \<Rightarrow> bool" where
  "isTitleTooLong item = (length (yoastTitle item) > 60)"

definition isTitleTooShort :: "content_item \<Rightarrow> bool" where
  "isTitleTooShort item = (length (yoastTitle item) < 30)"

definition isDescMissing :: "content_item \<Rightarrow> bool" where
  "isDescMissing item = (yoastDesc item = [])"

definition isDescTooLong :: "content_item \<Rightarrow> bool" where
  "isDescTooLong item = (length (yoastDesc item) > 160)"

definition isDescTooShort :: "content_item \<Rightarrow> bool" where
  "isDescTooShort item = (length (yoastDesc item) > 0 \<and> length (yoastDesc item) < 70)"

definition isOgImageMissing :: "content_item \<Rightarrow> bool" where
  "isOgImageMissing item = (ogImageObject item = None)"

definition isFeaturedImageAltMissing :: "image_data \<Rightarrow> bool" where
  "isFeaturedImageAltMissing featuredImageData =
     (img_url featuredImageData \<noteq> [] \<and> \<not> (img_alt featuredImageData \<noteq> []))"

definition yes_no :: "bool \<Rightarrow> cell" where
  "yes_no b = Str (if b then ''Yes'' else ''No'')"

text \<open>\<^verbatim>\<open>item.title?.rendered || 'No Title'\<close>\<close>

definition title_cell :: "content_item \<Rightarrow> cell" where
  "title_cell item =
     (case item_title item of
        None \<Rightarrow> Str ''No Title''
      | Some t \<Rightarrow> (case rendered t of
                    None \<Rightarrow> Str ''No Title''
                  | Some s \<Rightarrow> if s = [] then Str ''No Title'' else Str s))"

text \<open>\<^verbatim>\<open>item.excerpt?.rendered.replace(/<[^>]+>/g, '').trim() || ''\<close>: without an
  excerpt object the chain yields \<^verbatim>\<open>undefined\<close>; with an excerpt object that has no
  \<^verbatim>\<open>rendered\<close>, the call of \<^verbatim>\<open>replace\<close> throws.\<close>

definition excerpt_cell :: "content_item \<Rightarrow> js_error + cell" where
  "excerpt_cell item =
     (case item_excerpt item of
        None \<Rightarrow> Inr (Str [])
      | Some e \<Rightarrow> (case rendered e of
                    None \<Rightarrow> Inl (TypeError ''Cannot read properties of undefined'')
                  | Some s \<Rightarrow> Inr (Str (trim (strip_tags s)))))"

definition og_image_cell :: "content_item \<Rightarrow> cell" where
  "og_image_cell item =
     (case ogImageObject item of
        None \<Rightarrow> Str []
      | Some obj \<Rightarrow> (case og_url obj of None \<Rightarrow> Undefined | Some u \<Rightarrow> Str u))"

definition author_cell :: "content_item \<Rightarrow> cell" where
  "author_cell item = (case item_author item of None \<Rightarrow> Undefined | Some a \<Rightarrow> Num a)"

definition score_cell :: "image_data \<Rightarrow> content_item \<Rightarrow> cell" where
  "score_cell featuredImageData item =
     Str (string_of_nat (completenessScore featuredImageData item) @ '' / ''
          @ string_of_nat totalPossibleScore)"

text \<open>The object returned for one item, its properties in the order of the source, once the
  featured image has been resolved; the reference caches are read from the globals.\<close>

definition flatten_item :: "world \<Rightarrow> image_data \<Rightarrow> content_item \<Rightarrow> js_error + row" where
  "flatten_item w featuredImageData item =
     (case excerpt_cell item of
        Inl e \<Rightarrow> Inl e
      | Inr excerpt \<Rightarrow> Inr
          [(''Post Type'', item_postType item),
           (''ID'', item_id item),
           (''Title'', title_cell item),
           (''Status'', item_status item),
           (''Author Name'', Str (authorName w item)),
           (''Author ID'', author_cell item),
           (''Created Date (GMT)'', item_date_gmt item),
           (''Last Updated Date (GMT)'', item_modified_gmt item),
           (''Link'', item_link item),
           (''Categories'', Str (categoryNames w item)),
           (''Tags'', Str (tagNames w item)),
           (''Comment Status'', item_comment_status item),
           (''Template'', item_template item),
           (''Excerpt'', excerpt),
           (''Featured Image URL'', Str (img_url featuredImageData)),
           (''Featured Image Alt Text'', Str (img_alt featuredImageData)),
           (''Yoast Title'', Str (yoastTitle item)),
           (''Yoast Description'', Str (yoastDesc item)),
           (''Yoast Focus Keyphrase'', Str (focusKeyphrase item)),
           (''Yoast Word Count'', wordCount item),
           (''Yoast OG Title'', yoast_og_title (yoastData item)),
           (''Yoast OG Description'', yoast_og_description (yoastData item)),
           (''Yoast OG Image'', og_image_cell item),
           (''Yoast Twitter Title'', yoast_twitter_title (yoastData item)),
           (''Yoast Twitter Description'', yoast_twitter_description (yoastData item)),
           (''Yoast Twitter Image'', yoast_twitter_image (yoastData item)),
           (''Yoast Canonical'', yoast_canonical (yoastData item)),
           (''AUDIT: SEO Meta Score'', score_cell featuredImageData item),
           (''AUDIT: Is Title Too Long (>60)'', yes_no (isTitleTooLong item)),
           (''AUDIT: Is Title Too Short (<30)'', yes_no (isTitleTooShort item)),
           (''AUDIT: Is Meta Desc Missing'', yes_no (isDescMissing item)),
           (''AUDIT: Is Meta Desc Too Long (>160)'', yes_no (isDescTooLong item)),
           (''AUDIT: Is Meta Desc Too Short (<70)'', yes_no (isDescTooShort item)),
           (''AUDIT: Is OG Image Missing'', yes_no (isOgImageMissing item)),
           (''AUDIT: Is Featured Image Alt Missing'',
              yes_no (isFeaturedImageAltMissing featuredImageData)),
           (''AUDIT: Has Multiple H1 Tags'', yes_no (hasMultipleH1s item))])"

section \<open>\<^verbatim>\<open>getFeaturedImageData\<close>\<close>

definition no_image :: image_data where
  "no_image = \<lparr> img_url = [], img_alt = [] \<rparr>"

definition errorData :: image_data where
  "errorData = \<lparr> img_url = ''Error fetching image'', img_alt = ''Error fetching image'' \<rparr>"

text \<open>The function is asynchronous. A call runs up to its first suspension: it returns at once
  for a falsy id or a cached id, and otherwise issues the request and waits. \<open>Awaiting m n\<close> is
  a call waiting for the answer to request number \<open>n\<close>, for media id \<open>m\<close>.\<close>

datatype media_call = Returned image_data | Awaiting int nat

definition getFeaturedImageData_begin :: "int option \<Rightarrow> world \<Rightarrow> media_call \<times> world" where
  "getFeaturedImageData_begin mediaId w =
     (case mediaId of
        None \<Rightarrow> (Returned no_image, w)
      | Some m \<Rightarrow>
          if m = 0 then (Returned no_image, w)
          else (case map_of (mediaCache w) m of
                  Some d \<Rightarrow> (Returned d, w)
                | None \<Rightarrow> (Awaiting m (length (requests w)), send (GetMedia m) w)))"

text \<open>The rest of the call, run when the answer has arrived: the \<^verbatim>\<open>try\<close> block after
  the \<^verbatim>\<open>await\<close>, or the \<^verbatim>\<open>catch\<close> block.\<close>

definition getFeaturedImageData_resume ::
  "server \<Rightarrow> int \<Rightarrow> nat \<Rightarrow> world \<Rightarrow> image_data \<times> world" where
  "getFeaturedImageData_resume srv m n w =
     (case get_media srv n m of
        Inr data \<Rightarrow>
          (let imageData = \<lparr> img_url = or_empty (source_url data),
                              img_alt = or_empty (alt_text data) \<rparr>
           in (imageData, w \<lparr> mediaCache := AList.update m imageData (mediaCache w) \<rparr>))
      | Inl error \<Rightarrow>
          (errorData,
           (say (Warn (CouldNotFetchMedia m (error_message error))) w)
             \<lparr> mediaCache := AList.update m errorData (mediaCache w) \<rparr>))"

text \<open>\<^verbatim>\<open>await getFeaturedImageData(mediaId)\<close> with nothing else running in between.\<close>

definition getFeaturedImageData :: "server \<Rightarrow> int option \<Rightarrow> world \<Rightarrow> image_data \<times> world" where
  "getFeaturedImageData srv mediaId w =
     (case getFeaturedImageData_begin mediaId w of
        (Returned d, w1) \<Rightarrow> (d, w1)
      | (Awaiting m n, w1) \<Rightarrow> getFeaturedImageData_resume srv m n w1)"

definition media_requests :: "world \<Rightarrow> request list" where
  "media_requests w = filter (\<lambda>q. case q of GetMedia m \<Rightarrow> True | _ \<Rightarrow> False) (requests w)"

section \<open>Paginated fetching\<close>

text \<open>\<^verbatim>\<open>parseInt(...) || 1\<close>\<close>

definition total_or_one :: "int option \<Rightarrow> int" where
  "total_or_one h = (case h of None \<Rightarrow> 1 | Some n \<Rightarrow> if n = 0 then 1 else n)"

text \<open>The \<^verbatim>\<open>while\<close> loop of \<^verbatim>\<open>fetchAndCacheAll\<close>; the first component of the result
  is the error thrown out of the loop, if any.\<close>

function cache_pages ::
  "server \<Rightarrow> string \<Rightarrow> nat \<Rightarrow> int \<Rightarrow> name_cache \<Rightarrow> world \<Rightarrow> js_error option \<times> name_cache \<times> world"
  where
  "cache_pages srv endpoint page totalPages cache w =
     (if int page \<le> totalPages
      then (case get_terms srv (length (requests w)) endpoint page of
              Inl error \<Rightarrow> (Some error, cache, send (GetPage endpoint 100 page) w)
            | Inr response \<Rightarrow>
                cache_pages srv endpoint (page + 1)
                  (if page = 1 then total_or_one (x_wp_totalpages response) else totalPages)
                  (fold (\<lambda>item c. AList.update (term_id item) (term_name item) c)
                     (page_data response) cache)
                  (send (GetPage endpoint 100 page) w))
      else (None, cache, w))"
  by pat_completeness auto
termination
  by (relation "measures [\<lambda>(srv, endpoint, page, totalPages, cache, w). 2 - page,
                          \<lambda>(srv, endpoint, page, totalPages, cache, w). nat (totalPages + 1 - int page)]")
     auto

declare cache_pages.simps [simp del]

definition fetchAndCacheAll ::
  "server \<Rightarrow> string \<Rightarrow> name_cache \<Rightarrow> string \<Rightarrow> world \<Rightarrow> name_cache \<times> world" where
  "fetchAndCacheAll srv endpoint cache logName w =
     (case cache_pages srv endpoint 1 1 cache (say (Log (FetchingAll logName)) w) of
        (None, cache1, w1) \<Rightarrow> (cache1, say (Log (Cached (length cache1) logName)) w1)
      | (Some error, cache1, w1) \<Rightarrow>
          (cache1, say (Warn (CouldNotFetch logName (error_message error))) w1))"

section \<open>\<^verbatim>\<open>getPostTypes\<close>\<close>

text \<open>\<open>Inl code\<close> is \<^verbatim>\<open>process.exit(code)\<close>.\<close>

definition getPostTypes :: "server \<Rightarrow> world \<Rightarrow> (nat + string list) \<times> world" where
  "getPostTypes srv w =
     (let w1 = send GetTypes (say (Log Discovering) w) in
      case get_types srv (length (requests w)) of
        Inr data \<Rightarrow>
          (let availableTypes =
                 map (\<lambda>t. or_empty (rest_base t))
                   (filter (\<lambda>t. viewable t \<and> or_empty (rest_base t) \<noteq> []) data)
           in if length availableTypes > 0
              then (Inr availableTypes, say (Log (FoundPostTypes availableTypes)) w1)
              else (Inr [''posts'', ''pages''], say (Warn DefaultPostTypes) w1))
      | Inl error \<Rightarrow> (Inl 1, say (Error (FatalPostTypes (error_message error))) w1))"

section \<open>\<^verbatim>\<open>fetchPaginatedData\<close>\<close>

text \<open>The \<^verbatim>\<open>while\<close> loop inside the \<^verbatim>\<open>try\<close> block; \<open>Inl\<close> is the error thrown out
  of it.\<close>

function fetch_pages ::
  "server \<Rightarrow> string \<Rightarrow> nat \<Rightarrow> int \<Rightarrow> content_item list \<Rightarrow> world
     \<Rightarrow> (js_error + content_item list) \<times> world"
  where
  "fetch_pages srv postType page totalPages allItems w =
     (if int page \<le> totalPages
      then (case get_items srv (length (requests w)) postType page of
              Inl error \<Rightarrow> (Inl error, send (GetPage postType 50 page) w)
            | Inr response \<Rightarrow>
                (let totalPages1 =
                       (if page = 1 then total_or_one (x_wp_totalpages response) else totalPages);
                     w1 = send (GetPage postType 50 page) w;
                     w2 = (if page = 1
                           then say (Log (FoundItems (x_wp_total response) totalPages1)) w1
                           else w1);
                     allItems1 = (if length (page_data response) > 0
                                  then allItems @ page_data response else allItems);
                     w3 = (if length (page_data response) > 0
                           then say (Log (FetchedPage page totalPages1 (length allItems1))) w2
                           else w2)
                 in fetch_pages srv postType (page + 1) totalPages1 allItems1 w3))
      else (Inr allItems, w))"
  by pat_completeness auto
termination
  by (relation "measures [\<lambda>(srv, postType, page, totalPages, allItems, w). 2 - page,
                          \<lambda>(srv, postType, page, totalPages, allItems, w).
                             nat (totalPages + 1 - int page)]")
     auto

declare fetch_pages.simps [simp del]

definition fetchPaginatedData :: "server \<Rightarrow> string \<Rightarrow> world \<Rightarrow> content_item list \<times> world" where
  "fetchPaginatedData srv postType w =
     (case fetch_pages srv postType 1 1 [] (say (Log (StartingFetch postType)) w) of
        (Inl error, w1) \<Rightarrow>
          ([], if is_not_found error
               then say (Log (NoItemsFound postType)) w1
               else say (Error (ErrorFetchingData postType (error_message error))) w1)
      | (Inr allItems, w1) \<Rightarrow> (allItems, w1))"

section \<open>\<^verbatim>\<open>createAndSaveReport\<close>\<close>

text \<open>\<^verbatim>\<open>Promise.all(allData.map(async (item) => ...))\<close>: \<^verbatim>\<open>map\<close> calls the callback
  for every item in turn, and each call runs up to its first suspension, which is inside
  \<^verbatim>\<open>getFeaturedImageData\<close>. So all the calls of \<^verbatim>\<open>getFeaturedImageData\<close> begin, in
  the order of the items, before any answer arrives.\<close>

fun begin_all :: "content_item list \<Rightarrow> world \<Rightarrow> (content_item \<times> media_call) list \<times> world" where
  "begin_all [] w = ([], w)"
| "begin_all (item # items) w =
     (case getFeaturedImageData_begin (item_featured_media item) w of
        (c, w1) \<Rightarrow> (case begin_all items w1 of (cs, w2) \<Rightarrow> ((item, c) # cs, w2)))"

text \<open>The callbacks then continue, each with its own answer; they are taken here in the order
  of the items. The order in which answers really arrive only decides which entry of the media
  cache and which warning is written last.\<close>

fun resume_all ::
  "server \<Rightarrow> (content_item \<times> media_call) list \<Rightarrow> world \<Rightarrow> (js_error + row) list \<times> world" where
  "resume_all srv [] w = ([], w)"
| "resume_all srv ((item, c) # cs) w =
     (case (case c of
              Returned d \<Rightarrow> (d, w)
            | Awaiting m n \<Rightarrow> getFeaturedImageData_resume srv m n w) of
        (featuredImageData, w1) \<Rightarrow>
          (case resume_all srv cs w1 of
             (rs, w2) \<Rightarrow> (flatten_item w1 featuredImageData item # rs, w2)))"

text \<open>The calls that are waiting for an answer, with the number of their request.\<close>

definition media_requests_of_calls :: "(content_item \<times> media_call) list \<Rightarrow> (int \<times> nat) list" where
  "media_requests_of_calls calls =
     concat (map (\<lambda>(item, c). case c of Returned d \<Rightarrow> [] | Awaiting m n \<Rightarrow> [(m, n)]) calls)"

definition flatten_all ::
  "server \<Rightarrow> content_item list \<Rightarrow> world \<Rightarrow> (js_error + row) list \<times> world" where
  "flatten_all srv allData w =
     (case begin_all allData w of (calls, w1) \<Rightarrow> resume_all srv calls w1)"

text \<open>\<^verbatim>\<open>Promise.all\<close> rejects with an error of a callback, or fulfils with all rows.\<close>

fun promise_all :: "(js_error + 'a) list \<Rightarrow> js_error + 'a list" where
  "promise_all [] = Inr []"
| "promise_all (Inl e # rs) = Inl e"
| "promise_all (Inr x # rs) = (case promise_all rs of Inl e \<Rightarrow> Inl e | Inr xs \<Rightarrow> Inr (x # xs))"

text \<open>\<^verbatim>\<open>now.toISOString().replace(/[:.]/g, '-')\<close>\<close>

definition datetime :: "environment \<Rightarrow> string" where
  "datetime env = map (\<lambda>c. if c = CHR '':'' \<or> c = CHR ''.'' then CHR ''-'' else c) (now_iso env)"

text \<open>\<open>Inl\<close> is an error thrown out of the function (a rejected promise); the failure of
  \<^verbatim>\<open>mkdir\<close> or \<^verbatim>\<open>writeFile\<close> is caught inside.\<close>

definition createAndSaveReport ::
  "environment \<Rightarrow> server \<Rightarrow> content_item list \<Rightarrow> world \<Rightarrow> (js_error + unit) \<times> world" where
  "createAndSaveReport env srv allData w =
     (if length allData = 0 then (Inr (), say (Log NoDataExtracted) w)
      else (case flatten_all srv allData (say (Log ProcessingData) w) of
             (results, w2) \<Rightarrow>
               (case promise_all results of
                  Inl error \<Rightarrow> (Inl error, w2)
                | Inr flatData \<Rightarrow>
                    (case siteDomain w2 of
                       None \<Rightarrow> (Inl (TypeError ''The path argument must be of type string''), w2)
                     | Some d \<Rightarrow>
                         (let csv = unparse env flatData;
                              reportDir = path_join env ''reports'' d;
                              fileName = datetime env @ ''-yoast-report.csv'';
                              filePath = path_join env reportDir fileName
                          in case mkdir_error env reportDir of
                               Some error \<Rightarrow>
                                 (Inr (), say (Error (ErrorSavingReport (error_message error))) w2)
                             | None \<Rightarrow>
                                 (case writeFile_error env filePath csv of
                                    Some error \<Rightarrow>
                                      (Inr (),
                                       say (Error (ErrorSavingReport (error_message error)))
                                         (w2 \<lparr> directories := directories w2 @ [reportDir] \<rparr>))
                                  | None \<Rightarrow>
                                      (Inr (),
                                       say (Log (ReportSaved filePath))
                                         (w2 \<lparr> directories := directories w2 @ [reportDir],
                                               files := files w2 @ [(filePath, csv)] \<rparr>))))))))"

section \<open>\<^verbatim>\<open>main\<close>\<close>

definition setupApiClient :: "credentials \<Rightarrow> world \<Rightarrow> world" where
  "setupApiClient cr w = w \<lparr> siteDomain := Some (domain cr) \<rparr>"

text \<open>The start of \<^verbatim>\<open>main\<close>, once the prompts have been answered: the client is set up
  and the three reference caches are filled.\<close>

definition prefetch :: "server \<Rightarrow> credentials \<Rightarrow> world \<Rightarrow> world" where
  "prefetch srv cr w =
     (let w0 = setupApiClient cr (say (Log Banner) w) in
      case fetchAndCacheAll srv ''/users'' (authorCache w0) ''users'' w0 of
        (a, w1) \<Rightarrow>
          (case fetchAndCacheAll srv ''/categories'' (categoryCache w1) ''categories''
                  (w1 \<lparr> authorCache := a \<rparr>) of
             (c, w2) \<Rightarrow>
               (case fetchAndCacheAll srv ''/tags'' (tagCache w2) ''tags''
                       (w2 \<lparr> categoryCache := c \<rparr>) of
                  (t, w3) \<Rightarrow> w3 \<lparr> tagCache := t \<rparr>)))"

text \<open>The \<^verbatim>\<open>for\<close> loop over the post types.\<close>

fun collect_items ::
  "server \<Rightarrow> string list \<Rightarrow> content_item list \<Rightarrow> world \<Rightarrow> content_item list \<times> world" where
  "collect_items srv [] allExtractedData w = (allExtractedData, w)"
| "collect_items srv (type # types) allExtractedData w =
     (case fetchPaginatedData srv type w of
        (items, w1) \<Rightarrow>
          collect_items srv types
            (if length items > 0
             then allExtractedData @ map (\<lambda>item. item \<lparr> item_postType := Str type \<rparr>) items
             else allExtractedData)
            w1)"

text \<open>The result is the exit status of the process and the final state: \<^verbatim>\<open>process.exit(1)\<close>
  in \<^verbatim>\<open>getPostTypes\<close>, \<^verbatim>\<open>process.exit(1)\<close> in the handler of
  \<^verbatim>\<open>main().catch\<close>, or 0 when \<^verbatim>\<open>main\<close> returns.\<close>

definition main :: "environment \<Rightarrow> server \<Rightarrow> credentials \<Rightarrow> world \<Rightarrow> nat \<times> world" where
  "main env srv cr w =
     (case getPostTypes srv (prefetch srv cr w) of
        (Inl code, w1) \<Rightarrow> (code, w1)
      | (Inr postTypes, w1) \<Rightarrow>
          (case collect_items srv postTypes [] w1 of
             (allExtractedData, w2) \<Rightarrow>
               (case createAndSaveReport env srv allExtractedData w2 of
                  (Inl error, w3) \<Rightarrow> (1, say (Error (UnexpectedError error)) w3)
                | (Inr u, w3) \<Rightarrow> (0, w3))))"

section \<open>The seven conditions of the completeness score, as the specification lists them\<close>

text \<open>Written over the fields of the item as it arrives and of the image data, without the
  flattener's intermediate values: has categories; has tags; has a featured-image URL that is no
  error text (the URL is checked for the prefix \<open>Error\<close>); has alt text on the featured image,
  where the value cached for a failed fetch is no image; has a Yoast description; has a focus
  keyphrase (the keywords of the first node of type Article: a list joined with a comma and a
  space, which is empty only for no element or one empty element, or one string); has an
  OG-image object, the first of the list, with a URL.\<close>

definition seven_conditions :: "image_data \<Rightarrow> content_item \<Rightarrow> bool list" where
  "seven_conditions featuredImageData item =
     [(case item_categories item of None \<Rightarrow> False | Some cs \<Rightarrow> cs \<noteq> []),
      (case item_tags item of None \<Rightarrow> False | Some ts \<Rightarrow> ts \<noteq> []),
      img_url featuredImageData \<noteq> [] \<and> \<not> prefix ''Error'' (img_url featuredImageData),
      img_alt featuredImageData \<noteq> []
        \<and> featuredImageData \<noteq> \<lparr> img_url = ''Error fetching image'',
                                  img_alt = ''Error fetching image'' \<rparr>,
      (case item_yoast_head_json item of
         None \<Rightarrow> False
       | Some y \<Rightarrow> (case yoast_description y of None \<Rightarrow> False | Some d \<Rightarrow> d \<noteq> [])),
      (case item_yoast_head_json item of
         None \<Rightarrow> False
       | Some y \<Rightarrow>
           (case yoast_schema y of
              None \<Rightarrow> False
            | Some None \<Rightarrow> False
            | Some (Some g) \<Rightarrow>
                (case find (\<lambda>n. node_type n = Some (TypeName ''Article'')) g of
                   None \<Rightarrow> False
                 | Some a \<Rightarrow>
                     (case node_keywords a of
                        None \<Rightarrow> False
                      | Some (Keyword k) \<Rightarrow> k \<noteq> []
                      | Some (KeywordList ks) \<Rightarrow> ks \<noteq> [] \<and> ks \<noteq> [[]])))),
      (case item_yoast_head_json item of
         None \<Rightarrow> False
       | Some y \<Rightarrow>
           (case yoast_og_image y of
              None \<Rightarrow> False
            | Some [] \<Rightarrow> False
            | Some (obj # objs) \<Rightarrow> (case og_url obj of None \<Rightarrow> False | Some u \<Rightarrow> u \<noteq> [])))]"

section \<open>Example items\<close>

text \<open>An item without SEO blob, featured media, categories and tags, and variants of it: with
  a Yoast title or description of a given length, with categories and tags, with a featured
  media id. \<open>row_of\<close> is the row the flattener returns with empty reference caches.\<close>

definition bare_item :: content_item where
  "bare_item = \<lparr> item_postType = Str ''posts'', item_id = Num 1, item_title = None,
     item_author = Some 2, item_date_gmt = Undefined, item_modified_gmt = Undefined,
     item_link = Undefined, item_status = Str ''publish'', item_excerpt = None,
     item_comment_status = Undefined, item_template = Undefined,
     item_categories = Some [], item_tags = Some [], item_featured_media = Some 0,
     item_yoast_head_json = None \<rparr>"

definition row_of :: "image_data \<Rightarrow> content_item \<Rightarrow> row" where
  "row_of featuredImageData item =
     projr (flatten_item initial_world featuredImageData item)"

definition titled_item :: "nat \<Rightarrow> content_item" where
  "titled_item n = bare_item \<lparr> item_yoast_head_json :=
     Some (empty_yoast \<lparr> yoast_title := Some (replicate n CHR ''a'') \<rparr>) \<rparr>"

definition described_item :: "nat \<Rightarrow> content_item" where
  "described_item n = bare_item \<lparr> item_yoast_head_json :=
     Some (empty_yoast \<lparr> yoast_description := Some (replicate n CHR ''a'') \<rparr>) \<rparr>"

definition categorised_item :: content_item where
  "categorised_item = bare_item \<lparr> item_categories := Some [7], item_tags := Some [8, 9] \<rparr>"

definition pictured_item :: content_item where
  "pictured_item = bare_item \<lparr> item_featured_media := Some 5 \<rparr>"

text \<open>An item for which all seven conditions hold, with the image data of a fetched image.\<close>

definition good_image :: image_data where
  "good_image = \<lparr> img_url = ''https://example.com/a.png'', img_alt = ''A picture'' \<rparr>"

definition full_item :: content_item where
  "full_item = bare_item \<lparr> item_categories := Some [7], item_tags := Some [8],
     item_featured_media := Some 5,
     item_yoast_head_json := Some (empty_yoast \<lparr>
       yoast_description := Some ''A description'',
       yoast_og_image := Some [\<lparr> og_url = Some ''https://example.com/og.png'' \<rparr>],
       yoast_schema := Some (Some [
         \<lparr> node_type = Some (TypeName ''WebPage''), node_keywords = None,
           node_wordCount = Some 120, node_headline = None \<rparr>,
         \<lparr> node_type = Some (TypeName ''Article''),
           node_keywords = Some (KeywordList [''seo'', ''audit'']),
           node_wordCount = None, node_headline = None \<rparr>]) \<rparr>) \<rparr>"

text \<open>A site that rejects the first request it receives and answers every later media request
  with an image.\<close>

definition flaky_server :: server where
  "flaky_server = \<lparr>
     get_terms = (\<lambda>n endpoint page. Inl (NetworkError ''timeout'')),
     get_media = (\<lambda>n m. if n = 0 then Inl (HttpError 500 ''Request failed with status code 500'')
                          else Inr \<lparr> source_url = Some ''https://example.com/a.png'',
                                    alt_text = Some ''A picture'' \<rparr>),
     get_types = (\<lambda>n. Inl (NetworkError ''timeout'')),
     get_items = (\<lambda>n postType page. Inl (NetworkError ''timeout'')) \<rparr>"

text \<open>A site that rejects every request, one that knows no post type and has no items, and one
  whose listing of \<open>posts\<close> has a first page and fails on the second.\<close>

definition failing_server :: server where
  "failing_server = \<lparr>
     get_terms = (\<lambda>n endpoint page. Inl (NetworkError ''timeout'')),
     get_media = (\<lambda>n m. Inl (HttpError 404 ''Request failed with status code 404'')),
     get_types = (\<lambda>n. Inl (NetworkError ''timeout'')),
     get_items = (\<lambda>n postType page. Inl (NetworkError ''timeout'')) \<rparr>"

definition example_types :: "post_type list" where
  "example_types =
     [\<lparr> viewable = True, rest_base = Some ''posts'' \<rparr>,
      \<lparr> viewable = False, rest_base = Some ''blocks'' \<rparr>,
      \<lparr> viewable = True, rest_base = Some [] \<rparr>,
      \<lparr> viewable = True, rest_base = None \<rparr>,
      \<lparr> viewable = True, rest_base = Some ''media'' \<rparr>]"

definition empty_server :: server where
  "empty_server = \<lparr>
     get_terms = (\<lambda>n endpoint page. Inr \<lparr> x_wp_totalpages = None, x_wp_total = Undefined,
                                         page_data = [] \<rparr>),
     get_media = (\<lambda>n m. Inl (HttpError 404 ''Request failed with status code 404'')),
     get_types = (\<lambda>n. Inr []),
     get_items = (\<lambda>n postType page.
                    Inl (HttpError 404 ''Request failed with status code 404'')) \<rparr>"

definition broken_server :: server where
  "broken_server = \<lparr>
     get_terms = (\<lambda>n endpoint page. Inr \<lparr> x_wp_totalpages = None, x_wp_total = Undefined,
                                         page_data = [] \<rparr>),
     get_media = (\<lambda>n m. Inl (HttpError 404 ''Request failed with status code 404'')),
     get_types = (\<lambda>n. Inr example_types),
     get_items = (\<lambda>n postType page.
                    if page = 1
                    then Inr \<lparr> x_wp_totalpages = Some 2, x_wp_total = Str ''51'',
                              page_data = [bare_item] \<rparr>
                    else Inl (HttpError 500 ''Request failed with status code 500'')) \<rparr>"

text \<open>A site with two post types, the first of which has no listing.\<close>

definition mixed_server :: server where
  "mixed_server = \<lparr>
     get_terms = (\<lambda>n endpoint page. Inr \<lparr> x_wp_totalpages = None, x_wp_total = Undefined,
                                         page_data = [] \<rparr>),
     get_media = (\<lambda>n m. Inl (HttpError 404 ''Request failed with status code 404'')),
     get_types = (\<lambda>n. Inr [\<lparr> viewable = True, rest_base = Some ''posts'' \<rparr>,
                           \<lparr> viewable = True, rest_base = Some ''pages'' \<rparr>]),
     get_items = (\<lambda>n postType page.
                    if postType = ''pages''
                    then Inr \<lparr> x_wp_totalpages = Some 1, x_wp_total = Str ''1'',
                              page_data = [bare_item] \<rparr>
                    else Inl (HttpError 404 ''Request failed with status code 404'')) \<rparr>"

definition example_credentials :: credentials where
  "example_credentials = \<lparr> domain = ''example.com'', username = ''admin'',
     appPassword = ''secret'' \<rparr>"

definition example_environment :: environment where
  "example_environment = \<lparr> unparse = (\<lambda>rows. []), path_join = (\<lambda>a b. a @ ''/'' @ b),
     now_iso = ''2025-08-01T21:55:00.123Z'', mkdir_error = (\<lambda>d. None),
     writeFile_error = (\<lambda>f c. None) \<rparr>"

section \<open>The post types the specification asks for\<close>

text \<open>The entries marked viewable with a non-empty REST base slug, as their slugs.\<close>

definition viewable_slugs :: "post_type list \<Rightarrow> string list" where
  "viewable_slugs data =
     concat (map (\<lambda>t. case rest_base t of
                         None \<Rightarrow> []
                       | Some s \<Rightarrow> if viewable t \<and> s \<noteq> [] then [s] else []) data)"

section \<open>The file system part of the state\<close>

definition disk :: "world \<Rightarrow> string list \<times> (string \<times> string) list" where
  "disk w = (directories w, files w)"

section \<open>Properties of the row flattener\<close>

lemma flatten_item_columns:
  assumes "flatten_item w img item = Inr r"
  shows "column r ''AUDIT: SEO Meta Score'' = Some (score_cell img item)"
    and "column r ''AUDIT: Is Title Too Long (>60)'' = Some (yes_no (isTitleTooLong item))"
    and "column r ''AUDIT: Is Title Too Short (<30)'' = Some (yes_no (isTitleTooShort item))"
    and "column r ''AUDIT: Is Meta Desc Missing'' = Some (yes_no (isDescMissing item))"
    and "column r ''AUDIT: Is Meta Desc Too Long (>160)'' = Some (yes_no (isDescTooLong item))"
    and "column r ''AUDIT: Is Meta Desc Too Short (<70)'' = Some (yes_no (isDescTooShort item))"
    and "column r ''AUDIT: Is Featured Image Alt Missing'' =
           Some (yes_no (isFeaturedImageAltMissing img))"
    and "column r ''Categories'' = Some (Str (categoryNames w item))"
    and "column r ''Tags'' = Some (Str (tagNames w item))"
    and "column r ''Author Name'' = Some (Str (authorName w item))"
  using assms by (auto simp: flatten_item_def column_def split: sum.splits)

lemma flatten_item_audit_columns:
  assumes "flatten_item w img item = Inr r"
  shows "filter (prefix ''AUDIT'') (map fst r) =
     [''AUDIT: SEO Meta Score'', ''AUDIT: Is Title Too Long (>60)'',
      ''AUDIT: Is Title Too Short (<30)'', ''AUDIT: Is Meta Desc Missing'',
      ''AUDIT: Is Meta Desc Too Long (>160)'', ''AUDIT: Is Meta Desc Too Short (<70)'',
      ''AUDIT: Is OG Image Missing'', ''AUDIT: Is Featured Image Alt Missing'',
      ''AUDIT: Has Multiple H1 Tags'']"
  using assms by (auto simp: flatten_item_def split: sum.splits)

lemma flatten_item_total:
  "excerpt_cell item = Inr x \<Longrightarrow> \<exists>r. flatten_item w img item = Inr r"
  by (simp add: flatten_item_def)

lemma if_add: "(if c then (s::nat) + 1 else s) = s + (if c then 1 else 0)"
  by simp

lemma length_filter_Cons:
  "length (filter (\<lambda>b. b) (c # cs)) = (if c then 1 else 0) + length (filter (\<lambda>b. b) cs)"
  by simp

lemma join_empty_iff: "join '', '' ks = [] \<longleftrightarrow> ks = [] \<or> ks = [[]]"
proof (cases ks)
  case Nil
  then show ?thesis by simp
next
  case (Cons k ks')
  then show ?thesis by (cases ks') simp_all
qed

lemma has_categories_raw:
  "(or_nil xs \<noteq> []) = (case xs of None \<Rightarrow> False | Some cs \<Rightarrow> cs \<noteq> [])"
  by (simp add: or_nil_def split: option.splits)

lemma has_description_raw:
  "(yoastDesc item \<noteq> []) =
     (case item_yoast_head_json item of
        None \<Rightarrow> False
      | Some y \<Rightarrow> (case yoast_description y of None \<Rightarrow> False | Some d \<Rightarrow> d \<noteq> []))"
  by (simp add: yoastDesc_def yoastData_def empty_yoast_def or_empty_def split: option.splits)

lemma has_keyphrase_raw:
  "(focusKeyphrase item \<noteq> []) =
     (case item_yoast_head_json item of
        None \<Rightarrow> False
      | Some y \<Rightarrow>
          (case yoast_schema y of
             None \<Rightarrow> False
           | Some None \<Rightarrow> False
           | Some (Some g) \<Rightarrow>
               (case find (\<lambda>n. node_type n = Some (TypeName ''Article'')) g of
                  None \<Rightarrow> False
                | Some a \<Rightarrow>
                    (case node_keywords a of
                       None \<Rightarrow> False
                     | Some (Keyword k) \<Rightarrow> k \<noteq> []
                     | Some (KeywordList ks) \<Rightarrow> ks \<noteq> [] \<and> ks \<noteq> [[]]))))"
  by (simp add: focusKeyphrase_def article_def graph_def yoastData_def empty_yoast_def
      empty_node_def join_empty_iff split: option.splits keywords_value.splits)

lemma has_og_url_raw:
  "has_og_url item =
     (case item_yoast_head_json item of
        None \<Rightarrow> False
      | Some y \<Rightarrow>
          (case yoast_og_image y of
             None \<Rightarrow> False
           | Some [] \<Rightarrow> False
           | Some (obj # objs) \<Rightarrow> (case og_url obj of None \<Rightarrow> False | Some u \<Rightarrow> u \<noteq> [])))"
  by (simp add: has_og_url_def ogImageObject_def yoastData_def empty_yoast_def
      split: option.splits list.splits)

text \<open>The score is the number of conditions that hold, for every image data other than the
  value cached for a failed fetch.\<close>

lemma completenessScore_count:
  assumes "img \<noteq> errorData"
  shows "completenessScore img item = length (filter (\<lambda>b. b) (seven_conditions img item))"
proof -
  have alt: "(img_alt img \<noteq> [] \<and> img \<noteq> \<lparr> img_url = ''Error fetching image'',
                 img_alt = ''Error fetching image'' \<rparr>) = (img_alt img \<noteq> [])"
    using assms by (simp add: errorData_def)
  show ?thesis
    unfolding completenessScore_def seven_conditions_def Let_def if_add length_filter_Cons
      alt has_og_url_raw [symmetric] has_keyphrase_raw [symmetric]
      has_description_raw [symmetric] has_categories_raw [symmetric]
    by simp
qed

lemma length_seven_conditions: "length (seven_conditions img item) = 7"
  by (simp add: seven_conditions_def)

lemma string_of_total: "string_of_nat totalPossibleScore = ''7''"
  by (simp add: totalPossibleScore_def digit_char_def string_of_nat.simps)

lemma sublist_join: "x \<in> set xs \<Longrightarrow> sublist x (join sep xs)"
  by (induction sep xs rule: join.induct) (auto simp: sublist_append)

lemma resolve_absent: "map_of cache i = None \<Longrightarrow> resolve cache i = ''ID:'' @ string_of_int i"
  by (simp add: resolve_def)

lemma example_rows:
  "flatten_item initial_world img bare_item = Inr (row_of img bare_item)"
  "flatten_item initial_world img (titled_item n) = Inr (row_of img (titled_item n))"
  "flatten_item initial_world img (described_item n)
     = Inr (row_of img (described_item n))"
  by (simp_all add: row_of_def flatten_item_def excerpt_cell_def bare_item_def titled_item_def
      described_item_def)

lemma example_titles:
  "yoastTitle bare_item = []"
  "yoastTitle (titled_item n) = replicate n CHR ''a''"
  "yoastDesc bare_item = []"
  "yoastDesc (described_item n) = replicate n CHR ''a''"
  by (simp_all add: yoastTitle_def yoastDesc_def yoastData_def or_empty_def bare_item_def
      titled_item_def described_item_def empty_yoast_def)

text \<open>For every content item that is flattened to a row with image data other than the value
  cached for a failed fetch, the column ``AUDIT: SEO Meta Score'' is the text \<open>n / 7\<close> where
  \<open>n\<close> is the number of the seven conditions that hold, and \<open>n\<close> is at most 7.\<close>

lemma score_counts_conditions:
  assumes "flatten_item w featuredImageData item = Inr r"
    and "featuredImageData \<noteq> errorData"
  shows "column r ''AUDIT: SEO Meta Score'' =
           Some (Str (string_of_nat (length (filter (\<lambda>b. b) (seven_conditions featuredImageData item)))
                      @ '' / 7''))
         \<and> length (filter (\<lambda>b. b) (seven_conditions featuredImageData item)) \<le> 7"
proof -
  have "length (filter (\<lambda>b. b) (seven_conditions featuredImageData item))
          \<le> length (seven_conditions featuredImageData item)"
    by (rule length_filter_le)
  then have bound: "length (filter (\<lambda>b. b) (seven_conditions featuredImageData item)) \<le> 7"
    by (simp only: length_seven_conditions)
  have "column r ''AUDIT: SEO Meta Score'' = Some (score_cell featuredImageData item)"
    using assms(1) by (rule flatten_item_columns)
  then show ?thesis
    using bound
    by (simp add: score_cell_def completenessScore_count [OF assms(2)] string_of_total)
qed

text \<open>The item for which all seven conditions hold scores \<open>7 / 7\<close>, the one with a
  description only \<open>1 / 7\<close>, the bare one \<open>0 / 7\<close>.\<close>

lemma example_conditions:
  "seven_conditions good_image full_item = [True, True, True, True, True, True, True]"
  "seven_conditions no_image (described_item 3) = [False, False, False, False, True, False, False]"
  "seven_conditions no_image bare_item = [False, False, False, False, False, False, False]"
  by (simp_all add: seven_conditions_def full_item_def described_item_def bare_item_def
      good_image_def no_image_def empty_yoast_def)

lemma example_scores:
  "flatten_item initial_world good_image full_item = Inr (row_of good_image full_item)"
  "column (row_of good_image full_item) ''AUDIT: SEO Meta Score'' = Some (Str ''7 / 7'')"
  "column (row_of no_image (described_item 3)) ''AUDIT: SEO Meta Score'' = Some (Str ''1 / 7'')"
  "column (row_of no_image bare_item) ''AUDIT: SEO Meta Score'' = Some (Str ''0 / 7'')"
proof -
  show full: "flatten_item initial_world good_image full_item = Inr (row_of good_image full_item)"
    by (simp add: row_of_def flatten_item_def excerpt_cell_def full_item_def bare_item_def)
  have g: "good_image \<noteq> errorData" "no_image \<noteq> errorData"
    by (simp_all add: good_image_def no_image_def errorData_def)
  show "column (row_of good_image full_item) ''AUDIT: SEO Meta Score'' = Some (Str ''7 / 7'')"
    using score_counts_conditions [OF full g(1)]
    by (simp add: example_conditions digit_char_def string_of_nat.simps)
  show "column (row_of no_image (described_item 3)) ''AUDIT: SEO Meta Score''
          = Some (Str ''1 / 7'')"
    using score_counts_conditions [OF example_rows(3) [of no_image 3] g(2)]
    by (simp add: example_conditions digit_char_def string_of_nat.simps)
  show "column (row_of no_image bare_item) ''AUDIT: SEO Meta Score'' = Some (Str ''0 / 7'')"
    using score_counts_conditions [OF example_rows(1) [of no_image] g(2)]
    by (simp add: example_conditions digit_char_def string_of_nat.simps)
qed

text \<open>
  Claim C1. The score is not the number of the seven conditions that hold for every item: for
  an item with featured media 5 and nothing else, on a site that rejects the media request,
  none of the seven conditions holds (there is no image, so no alt text on it), and the column
  ``AUDIT: SEO Meta Score'' of the row is \<open>1 / 7\<close>.
\<close>

theorem failed_fetch_score_exceeds_conditions:
  "fst (flatten_all failing_server [pictured_item] initial_world)
     = [Inr (row_of errorData pictured_item)]
   \<and> seven_conditions errorData pictured_item
       = [False, False, False, False, False, False, False]
   \<and> column (row_of errorData pictured_item) ''AUDIT: SEO Meta Score'' = Some (Str ''1 / 7'')"
  apply (intro conjI)
  subgoal
    by (simp add: flatten_all_def getFeaturedImageData_begin_def pictured_item_def bare_item_def
      initial_world_def send_def getFeaturedImageData_resume_def failing_server_def say_def
      row_of_def flatten_item_def excerpt_cell_def categoryNames_def tagNames_def authorName_def)
  subgoal
    by (simp add: seven_conditions_def pictured_item_def bare_item_def errorData_def)
  subgoal
    by (simp add: row_of_def flatten_item_def excerpt_cell_def pictured_item_def bare_item_def
      column_def score_cell_def completenessScore_def or_nil_def errorData_def Let_def
      yoastDesc_def yoastData_def empty_yoast_def or_empty_def focusKeyphrase_def article_def
      graph_def empty_node_def has_og_url_def ogImageObject_def string_of_nat.simps
      digit_char_def totalPossibleScore_def)
  done

text \<open>
  Claim C3. For every content item that is flattened to a row: a Yoast title of length 60
  gives ``Is Title Too Long (>60)'' = No and of length 61 gives Yes; a Yoast title of length 30
  gives ``Is Title Too Short (<30)'' = No and of length 29 gives Yes.
\<close>

theorem title_length_audits:
  assumes "flatten_item w featuredImageData item = Inr r"
  shows "(length (yoastTitle item) = 60 \<longrightarrow>
            column r ''AUDIT: Is Title Too Long (>60)'' = Some (Str ''No''))
       \<and> (length (yoastTitle item) = 61 \<longrightarrow>
            column r ''AUDIT: Is Title Too Long (>60)'' = Some (Str ''Yes''))
       \<and> (length (yoastTitle item) = 30 \<longrightarrow>
            column r ''AUDIT: Is Title Too Short (<30)'' = Some (Str ''No''))
       \<and> (length (yoastTitle item) = 29 \<longrightarrow>
            column r ''AUDIT: Is Title Too Short (<30)'' = Some (Str ''Yes''))"
  using flatten_item_columns(2,3) [OF assms]
  by (simp add: yes_no_def isTitleTooLong_def isTitleTooShort_def)

theorem title_length_audits_witness:
  "flatten_item initial_world no_image (titled_item 60) = Inr (row_of no_image (titled_item 60))
   \<and> flatten_item initial_world no_image (titled_item 61) = Inr (row_of no_image (titled_item 61))
   \<and> flatten_item initial_world no_image (titled_item 30) = Inr (row_of no_image (titled_item 30))
   \<and> flatten_item initial_world no_image (titled_item 29) = Inr (row_of no_image (titled_item 29))
   \<and> length (yoastTitle (titled_item 60)) = 60
   \<and> column (row_of no_image (titled_item 60)) ''AUDIT: Is Title Too Long (>60)'' = Some (Str ''No'')
   \<and> length (yoastTitle (titled_item 61)) = 61
   \<and> column (row_of no_image (titled_item 61)) ''AUDIT: Is Title Too Long (>60)'' = Some (Str ''Yes'')
   \<and> length (yoastTitle (titled_item 30)) = 30
   \<and> column (row_of no_image (titled_item 30)) ''AUDIT: Is Title Too Short (<30)'' = Some (Str ''No'')
   \<and> length (yoastTitle (titled_item 29)) = 29
   \<and> column (row_of no_image (titled_item 29)) ''AUDIT: Is Title Too Short (<30)'' = Some (Str ''Yes'')"
  using title_length_audits [OF example_rows(2) [of no_image 60]]
    title_length_audits [OF example_rows(2) [of no_image 61]]
    title_length_audits [OF example_rows(2) [of no_image 30]]
    title_length_audits [OF example_rows(2) [of no_image 29]]
  by (simp add: example_titles example_rows)

text \<open>
  Claim C4. For every content item that is flattened to a row: an empty Yoast description gives
  ``Is Meta Desc Missing'' = Yes, ``Is Meta Desc Too Long (>160)'' = No and
  ``Is Meta Desc Too Short (<70)'' = No; a description of length 70 gives Too Short = No and of
  length 69 gives Too Short = Yes.
\<close>

theorem description_audits:
  assumes "flatten_item w featuredImageData item = Inr r"
  shows "(yoastDesc item = [] \<longrightarrow>
            column r ''AUDIT: Is Meta Desc Missing'' = Some (Str ''Yes'')
          \<and> column r ''AUDIT: Is Meta Desc Too Long (>160)'' = Some (Str ''No'')
          \<and> column r ''AUDIT: Is Meta Desc Too Short (<70)'' = Some (Str ''No''))
       \<and> (length (yoastDesc item) = 70 \<longrightarrow>
            column r ''AUDIT: Is Meta Desc Too Short (<70)'' = Some (Str ''No''))
       \<and> (length (yoastDesc item) = 69 \<longrightarrow>
            column r ''AUDIT: Is Meta Desc Too Short (<70)'' = Some (Str ''Yes''))"
  using flatten_item_columns(4,5,6) [OF assms]
  by (simp add: yes_no_def isDescMissing_def isDescTooLong_def isDescTooShort_def)

theorem description_audits_witness:
  "flatten_item initial_world no_image bare_item = Inr (row_of no_image bare_item)
   \<and> flatten_item initial_world no_image (described_item 70)
       = Inr (row_of no_image (described_item 70))
   \<and> flatten_item initial_world no_image (described_item 69)
       = Inr (row_of no_image (described_item 69))
   \<and> yoastDesc bare_item = []
   \<and> column (row_of no_image bare_item) ''AUDIT: Is Meta Desc Missing'' = Some (Str ''Yes'')
   \<and> column (row_of no_image bare_item) ''AUDIT: Is Meta Desc Too Long (>160)'' = Some (Str ''No'')
   \<and> column (row_of no_image bare_item) ''AUDIT: Is Meta Desc Too Short (<70)'' = Some (Str ''No'')
   \<and> length (yoastDesc (described_item 70)) = 70
   \<and> column (row_of no_image (described_item 70)) ''AUDIT: Is Meta Desc Too Short (<70)''
        = Some (Str ''No'')
   \<and> length (yoastDesc (described_item 69)) = 69
   \<and> column (row_of no_image (described_item 69)) ''AUDIT: Is Meta Desc Too Short (<70)''
        = Some (Str ''Yes'')"
  using description_audits [OF example_rows(1) [of no_image]]
    description_audits [OF example_rows(3) [of no_image 70]]
    description_audits [OF example_rows(3) [of no_image 69]]
  by (simp add: example_titles example_rows)

text \<open>
  Claim C10. For every content item without a Yoast title (no SEO blob, or a blob whose title
  is absent or empty), the row has ``Is Title Too Short (<30)'' = Yes and
  ``Is Title Too Long (>60)'' = No; the audit columns of the row are the nine of the source, none
  of which reports a missing title.
\<close>

theorem missing_title_is_too_short:
  assumes "flatten_item w featuredImageData item = Inr r"
    and "item_yoast_head_json item = None
         \<or> (\<exists>y. item_yoast_head_json item = Some y
                \<and> (yoast_title y = None \<or> yoast_title y = Some []))"
  shows "column r ''AUDIT: Is Title Too Short (<30)'' = Some (Str ''Yes'')
       \<and> column r ''AUDIT: Is Title Too Long (>60)'' = Some (Str ''No'')
       \<and> filter (prefix ''AUDIT'') (map fst r) =
           [''AUDIT: SEO Meta Score'', ''AUDIT: Is Title Too Long (>60)'',
            ''AUDIT: Is Title Too Short (<30)'', ''AUDIT: Is Meta Desc Missing'',
            ''AUDIT: Is Meta Desc Too Long (>160)'', ''AUDIT: Is Meta Desc Too Short (<70)'',
            ''AUDIT: Is OG Image Missing'', ''AUDIT: Is Featured Image Alt Missing'',
            ''AUDIT: Has Multiple H1 Tags'']"
proof -
  from assms(2) have "yoastTitle item = []"
    by (auto simp: yoastTitle_def yoastData_def or_empty_def empty_yoast_def)
  then show ?thesis
    using flatten_item_columns(2,3) [OF assms(1)] flatten_item_audit_columns [OF assms(1)]
    by (simp add: yes_no_def isTitleTooLong_def isTitleTooShort_def)
qed

theorem missing_title_is_too_short_witness:
  "flatten_item initial_world no_image bare_item = Inr (row_of no_image bare_item)
   \<and> flatten_item initial_world no_image (titled_item 0) = Inr (row_of no_image (titled_item 0))
   \<and> item_yoast_head_json bare_item = None
   \<and> column (row_of no_image bare_item) ''AUDIT: Is Title Too Short (<30)'' = Some (Str ''Yes'')
   \<and> column (row_of no_image bare_item) ''AUDIT: Is Title Too Long (>60)'' = Some (Str ''No'')
   \<and> item_yoast_head_json (titled_item 0) = Some (empty_yoast \<lparr> yoast_title := Some [] \<rparr>)
   \<and> column (row_of no_image (titled_item 0)) ''AUDIT: Is Title Too Short (<30)'' = Some (Str ''Yes'')
   \<and> column (row_of no_image (titled_item 0)) ''AUDIT: Is Title Too Long (>60)'' = Some (Str ''No'')"
proof -
  have a: "item_yoast_head_json bare_item = None"
    by (simp add: bare_item_def)
  have b: "item_yoast_head_json (titled_item 0) = Some (empty_yoast \<lparr> yoast_title := Some [] \<rparr>)"
    by (simp add: titled_item_def)
  have b': "item_yoast_head_json (titled_item 0) = None
         \<or> (\<exists>y. item_yoast_head_json (titled_item 0) = Some y
                \<and> (yoast_title y = None \<or> yoast_title y = Some []))"
    by (simp add: b)
  show ?thesis
    using missing_title_is_too_short [OF example_rows(1) [of no_image] disjI1 [OF a]]
      missing_title_is_too_short [OF example_rows(2) [of no_image 0] b'] a b
    by (simp add: example_rows)
qed

text \<open>
  Claim C6. For every content item whose excerpt expression does not throw, and for every state
  of the three reference caches, the flattener returns a row (the resolution of author,
  categories and tags has no failing case); each category or tag id without a cache entry occurs
  in the joined Categories or Tags column as the text \<open>ID:\<close> followed by the id, and an author
  without a cache entry gives that text as the Author Name.
\<close>

theorem missing_reference_placeholder:
  assumes "excerpt_cell item = Inr x"
  shows "\<exists>r. flatten_item w featuredImageData item = Inr r
     \<and> (\<forall>i \<in> set (or_nil (item_categories item)). map_of (categoryCache w) i = None \<longrightarrow>
           (\<exists>s. column r ''Categories'' = Some (Str s) \<and> sublist (''ID:'' @ string_of_int i) s))
     \<and> (\<forall>i \<in> set (or_nil (item_tags item)). map_of (tagCache w) i = None \<longrightarrow>
           (\<exists>s. column r ''Tags'' = Some (Str s) \<and> sublist (''ID:'' @ string_of_int i) s))
     \<and> (\<forall>a. item_author item = Some a \<and> map_of (authorCache w) a = None \<longrightarrow>
           column r ''Author Name'' = Some (Str (''ID:'' @ string_of_int a)))"
proof -
  from assms obtain r
    where r: "flatten_item w featuredImageData item = Inr r"
    using flatten_item_total by blast
  have cats: "sublist (''ID:'' @ string_of_int i) (categoryNames w item)"
    if "i \<in> set (or_nil (item_categories item))" and "map_of (categoryCache w) i = None" for i
  proof -
    from that have "''ID:'' @ string_of_int i
        \<in> set (map (resolve (categoryCache w)) (or_nil (item_categories item)))"
      using resolve_absent [of "categoryCache w" i] by (metis image_eqI list.set_map)
    then show ?thesis
      unfolding categoryNames_def by (rule sublist_join)
  qed
  have tags: "sublist (''ID:'' @ string_of_int i) (tagNames w item)"
    if "i \<in> set (or_nil (item_tags item))" and "map_of (tagCache w) i = None" for i
  proof -
    from that have "''ID:'' @ string_of_int i
        \<in> set (map (resolve (tagCache w)) (or_nil (item_tags item)))"
      using resolve_absent [of "tagCache w" i] by (metis image_eqI list.set_map)
    then show ?thesis
      unfolding tagNames_def by (rule sublist_join)
  qed
  have auth: "authorName w item = ''ID:'' @ string_of_int a"
    if "item_author item = Some a" and "map_of (authorCache w) a = None" for a
    using that by (simp add: authorName_def resolve_absent)
  show ?thesis
    using r flatten_item_columns(8,9,10) [OF r] cats tags auth by simp
qed

theorem missing_reference_placeholder_witness:
  "excerpt_cell categorised_item = Inr (Str [])
   \<and> or_nil (item_categories categorised_item) = [7]
   \<and> or_nil (item_tags categorised_item) = [8, 9]
   \<and> item_author categorised_item = Some 2
   \<and> map_of (categoryCache initial_world) 7 = None
   \<and> map_of (tagCache initial_world) 8 = None
   \<and> map_of (authorCache initial_world) 2 = None
   \<and> flatten_item initial_world no_image categorised_item
       = Inr (row_of no_image categorised_item)
   \<and> column (row_of no_image categorised_item) ''Categories'' = Some (Str ''ID:7'')
   \<and> column (row_of no_image categorised_item) ''Tags'' = Some (Str ''ID:8, ID:9'')
   \<and> column (row_of no_image categorised_item) ''Author Name'' = Some (Str ''ID:2'')"
proof -
  have e: "excerpt_cell categorised_item = Inr (Str [])"
    by (simp add: excerpt_cell_def categorised_item_def bare_item_def)
  from missing_reference_placeholder [OF e, of initial_world no_image]
  obtain r where r: "flatten_item initial_world no_image categorised_item = Inr r"
    by blast
  then have rr: "r = row_of no_image categorised_item"
    by (simp add: row_of_def)
  have n: "string_of_int 7 = ''7''" "string_of_int 8 = ''8''" "string_of_int 9 = ''9''"
    "string_of_int 2 = ''2''"
    by (simp_all add: string_of_int_def string_of_nat.simps digit_char_def)
  have "categoryNames initial_world categorised_item = ''ID:7''"
    "tagNames initial_world categorised_item = ''ID:8, ID:9''"
    "authorName initial_world categorised_item = ''ID:2''"
    by (simp_all add: categoryNames_def tagNames_def authorName_def categorised_item_def
        bare_item_def or_nil_def resolve_def initial_world_def n)
  moreover have "or_nil (item_categories categorised_item) = [7]"
    "or_nil (item_tags categorised_item) = [8, 9]" "item_author categorised_item = Some 2"
    "map_of (categoryCache initial_world) 7 = None" "map_of (tagCache initial_world) 8 = None"
    "map_of (authorCache initial_world) 2 = None"
    by (simp_all add: categorised_item_def bare_item_def or_nil_def initial_world_def)
  ultimately show ?thesis
    using e r rr flatten_item_columns(8,9,10) [OF r] by simp
qed



section \<open>Properties of \<^verbatim>\<open>getFeaturedImageData\<close>\<close>

lemma say_fields [simp]:
  "mediaCache (say l w) = mediaCache w" "requests (say l w) = requests w"
  "authorCache (say l w) = authorCache w" "categoryCache (say l w) = categoryCache w"
  "tagCache (say l w) = tagCache w" "siteDomain (say l w) = siteDomain w"
  "directories (say l w) = directories w" "files (say l w) = files w"
  "console (say l w) = console w @ [l]"
  by (simp_all add: say_def)

lemma send_fields [simp]:
  "mediaCache (send q w) = mediaCache w" "requests (send q w) = requests w @ [q]"
  "authorCache (send q w) = authorCache w" "categoryCache (send q w) = categoryCache w"
  "tagCache (send q w) = tagCache w" "siteDomain (send q w) = siteDomain w"
  "directories (send q w) = directories w" "files (send q w) = files w"
  "console (send q w) = console w"
  by (simp_all add: send_def)

lemma resume_caches:
  assumes "getFeaturedImageData_resume srv m n w = (d, w1)"
  shows "map_of (mediaCache w1) m = Some d" and "requests w1 = requests w"
  using assms
  by (auto simp: getFeaturedImageData_resume_def Let_def AList.update_conv' split: sum.splits)

lemma begin_cases:
  assumes "getFeaturedImageData_begin mediaId w = (c, w1)"
  shows "(c = Returned no_image \<and> w1 = w \<and> (mediaId = None \<or> mediaId = Some 0))
       \<or> (\<exists>m d. mediaId = Some m \<and> m \<noteq> 0 \<and> map_of (mediaCache w) m = Some d
              \<and> c = Returned d \<and> w1 = w)
       \<or> (\<exists>m. mediaId = Some m \<and> m \<noteq> 0 \<and> map_of (mediaCache w) m = None
              \<and> c = Awaiting m (length (requests w)) \<and> w1 = send (GetMedia m) w)"
  using assms
  by (auto simp: getFeaturedImageData_begin_def split: option.splits if_splits)

lemma cached_call:
  assumes "map_of (mediaCache w) m = Some d" and "m \<noteq> 0"
  shows "getFeaturedImageData srv (Some m) w = (d, w)"
  using assms by (simp add: getFeaturedImageData_def getFeaturedImageData_begin_def)

lemma falsy_call:
  assumes "mediaId = None \<or> mediaId = Some 0"
  shows "getFeaturedImageData srv mediaId w = (no_image, w)"
  using assms by (auto simp: getFeaturedImageData_def getFeaturedImageData_begin_def)

lemma media_requests_send:
  "media_requests (send (GetMedia m) w) = media_requests w @ [GetMedia m]"
  by (simp add: media_requests_def)

text \<open>Two calls with the same id of which the second is made when the first has returned:
  they return the same image data, the second leaves the state as the first left it, and
  together they issue at most one media request. The program makes no such pair of calls.\<close>

lemma sequential_calls_memoized:
  assumes "getFeaturedImageData srv mediaId w = (d1, w1)"
    and "getFeaturedImageData srv mediaId w1 = (d2, w2)"
  shows "d2 = d1 \<and> w2 = w1 \<and> length (media_requests w2) \<le> length (media_requests w) + 1"
proof -
  obtain c w' where b: "getFeaturedImageData_begin mediaId w = (c, w')"
    by (cases "getFeaturedImageData_begin mediaId w")
  from begin_cases [OF b] consider
    (falsy) "mediaId = None \<or> mediaId = Some 0"
    | (hit) m d where "mediaId = Some m" "m \<noteq> 0" "map_of (mediaCache w) m = Some d"
    | (miss) m where "mediaId = Some m" "m \<noteq> 0" "map_of (mediaCache w) m = None"
        "c = Awaiting m (length (requests w))" "w' = send (GetMedia m) w"
    by blast
  then show ?thesis
  proof cases
    case falsy
    then show ?thesis using assms by (simp add: falsy_call)
  next
    case hit
    then show ?thesis using assms by (simp add: cached_call)
  next
    case miss
    with b assms(1) have r: "getFeaturedImageData_resume srv m (length (requests w))
        (send (GetMedia m) w) = (d1, w1)"
      by (simp add: getFeaturedImageData_def)
    from resume_caches [OF r] have c1: "map_of (mediaCache w1) m = Some d1"
      and q: "requests w1 = requests w @ [GetMedia m]"
      by simp_all
    from c1 miss(1,2) assms(2) have "d2 = d1" "w2 = w1"
      by (simp_all add: cached_call)
    moreover from q have "media_requests w1 = media_requests w @ [GetMedia m]"
      by (simp add: media_requests_def)
    ultimately show ?thesis by simp
  qed
qed

lemma failing_call: "getFeaturedImageData failing_server (Some 5) initial_world
    = (errorData, snd (getFeaturedImageData failing_server (Some 5) initial_world))"
  by (simp add: getFeaturedImageData_def getFeaturedImageData_begin_def initial_world_def
      getFeaturedImageData_resume_def failing_server_def)

lemma sequential_calls_memoized_example:
  "fst (getFeaturedImageData failing_server (Some 5) initial_world) = errorData
   \<and> getFeaturedImageData failing_server (Some 5)
        (snd (getFeaturedImageData failing_server (Some 5) initial_world))
      = (errorData, snd (getFeaturedImageData failing_server (Some 5) initial_world))
   \<and> length (media_requests (snd (getFeaturedImageData failing_server (Some 5) initial_world)))
        \<le> length (media_requests initial_world) + 1"
proof -
  let ?w1 = "snd (getFeaturedImageData failing_server (Some 5) initial_world)"
  have a: "getFeaturedImageData failing_server (Some 5) initial_world = (errorData, ?w1)"
    by (rule failing_call)
  have b: "getFeaturedImageData failing_server (Some 5) ?w1
             = (fst (getFeaturedImageData failing_server (Some 5) ?w1),
                snd (getFeaturedImageData failing_server (Some 5) ?w1))"
    by simp
  from sequential_calls_memoized [OF a b] a b show ?thesis
    by (metis fst_conv)
qed

lemma failed_fetch_returns_sentinel:
  assumes "m \<noteq> 0" and "map_of (mediaCache w) m = None"
    and "get_media srv (length (requests w)) m = Inl error"
  shows "fst (getFeaturedImageData srv (Some m) w) = errorData"
    and "map_of (mediaCache (snd (getFeaturedImageData srv (Some m) w))) m = Some errorData"
  using assms
  by (simp_all add: getFeaturedImageData_def getFeaturedImageData_begin_def
      getFeaturedImageData_resume_def AList.update_conv')

text \<open>The calls the program makes: \<^verbatim>\<open>createAndSaveReport\<close> starts one call for every
  item before any answer has arrived, so every call finds the media cache as it was. Two items
  with the same media id that is not cached issue two requests for it, on every site and in
  every state.\<close>

lemma overlapping_calls_both_fetch:
  assumes "item_featured_media a = Some m" and "item_featured_media b = Some m"
    and "m \<noteq> 0" and "map_of (mediaCache w) m = None"
  shows "media_requests (snd (begin_all [a, b] w)) = media_requests w @ [GetMedia m, GetMedia m]"
    and "map fst (media_requests_of_calls (fst (begin_all [a, b] w))) = [m, m]"
  using assms
  by (simp_all add: getFeaturedImageData_begin_def media_requests_def
      media_requests_of_calls_def)

text \<open>
  Claim C5. Two calls of \<^verbatim>\<open>getFeaturedImageData\<close> with the same id that start from the
  same cache state can perform two fetches and return different results: for two items with
  featured media 5 and an empty media cache, on a site that rejects the first request and
  answers the second, \<^verbatim>\<open>createAndSaveReport\<close> issues two requests for media 5, and the
  two rows show the error text and the URL of the image.
\<close>

theorem overlapping_calls_fetch_twice:
  "item_featured_media pictured_item = Some 5
   \<and> map_of (mediaCache initial_world) 5 = None
   \<and> map snd (fst (begin_all [pictured_item, pictured_item] initial_world))
       = [Awaiting 5 0, Awaiting 5 1]
   \<and> mediaCache (snd (begin_all [pictured_item, pictured_item] initial_world))
       = mediaCache initial_world
   \<and> media_requests (snd (flatten_all flaky_server [pictured_item, pictured_item] initial_world))
       = [GetMedia 5, GetMedia 5]
   \<and> fst (flatten_all flaky_server [pictured_item, pictured_item] initial_world)
       = [Inr (row_of errorData pictured_item), Inr (row_of good_image pictured_item)]
   \<and> column (row_of errorData pictured_item) ''Featured Image URL''
       = Some (Str ''Error fetching image'')
   \<and> column (row_of good_image pictured_item) ''Featured Image URL''
       = Some (Str ''https://example.com/a.png'')"
  apply (intro conjI)
  subgoal by (simp add: pictured_item_def)
  subgoal by (simp add: initial_world_def)
  subgoal
    by (simp add: getFeaturedImageData_begin_def pictured_item_def bare_item_def
      initial_world_def send_def)
  subgoal
    by (simp add: getFeaturedImageData_begin_def pictured_item_def bare_item_def
      initial_world_def send_def)
  subgoal
    by (simp add: flatten_all_def getFeaturedImageData_begin_def pictured_item_def bare_item_def
      initial_world_def send_def getFeaturedImageData_resume_def flaky_server_def say_def
      media_requests_def or_empty_def Let_def)
  subgoal
    by (simp add: flatten_all_def getFeaturedImageData_begin_def pictured_item_def bare_item_def
      initial_world_def send_def getFeaturedImageData_resume_def flaky_server_def say_def
      or_empty_def good_image_def Let_def
      row_of_def flatten_item_def excerpt_cell_def categoryNames_def tagNames_def authorName_def)
  subgoal
    by (simp add: row_of_def flatten_item_def excerpt_cell_def pictured_item_def bare_item_def
      column_def errorData_def)
  subgoal
    by (simp add: row_of_def flatten_item_def excerpt_cell_def pictured_item_def bare_item_def
      column_def good_image_def)
  done

text \<open>
  Claim C2. An item with featured media 5 and nothing else, on a site that rejects the media
  request: the image data is the error value, whose alt text is not empty, so the row shows
  that text as the alt text, the score is \<open>1 / 7\<close> where the same item without an image scores
  \<open>0 / 7\<close>, and ``Is Featured Image Alt Missing'' is No.
\<close>

theorem sentinel_scores_alt_text:
  "fst (flatten_all failing_server [pictured_item] initial_world)
     = [Inr (row_of errorData pictured_item)]
   \<and> column (row_of errorData pictured_item) ''Featured Image Alt Text''
       = Some (Str ''Error fetching image'')
   \<and> column (row_of errorData pictured_item) ''AUDIT: SEO Meta Score'' = Some (Str ''1 / 7'')
   \<and> column (row_of no_image pictured_item) ''AUDIT: SEO Meta Score'' = Some (Str ''0 / 7'')
   \<and> column (row_of errorData pictured_item) ''AUDIT: Is Featured Image Alt Missing''
       = Some (Str ''No'')"
  apply (intro conjI)
  subgoal
    by (simp add: flatten_all_def getFeaturedImageData_begin_def pictured_item_def bare_item_def
      initial_world_def send_def getFeaturedImageData_resume_def failing_server_def say_def
      row_of_def flatten_item_def excerpt_cell_def categoryNames_def tagNames_def authorName_def)
  subgoal
    by (simp add: row_of_def flatten_item_def excerpt_cell_def pictured_item_def bare_item_def
      column_def errorData_def)
  subgoal
    by (simp add: row_of_def flatten_item_def excerpt_cell_def pictured_item_def bare_item_def
      column_def score_cell_def completenessScore_def or_nil_def errorData_def Let_def
      yoastDesc_def yoastData_def empty_yoast_def or_empty_def focusKeyphrase_def article_def
      graph_def empty_node_def has_og_url_def ogImageObject_def string_of_nat.simps
      digit_char_def totalPossibleScore_def)
  subgoal
    by (simp add: row_of_def flatten_item_def excerpt_cell_def pictured_item_def bare_item_def
      column_def score_cell_def completenessScore_def or_nil_def no_image_def Let_def
      yoastDesc_def yoastData_def empty_yoast_def or_empty_def focusKeyphrase_def article_def
      graph_def empty_node_def has_og_url_def ogImageObject_def string_of_nat.simps
      digit_char_def totalPossibleScore_def)
  subgoal
    by (simp add: row_of_def flatten_item_def excerpt_cell_def pictured_item_def bare_item_def
      column_def isFeaturedImageAltMissing_def errorData_def yes_no_def)
  done

section \<open>Properties of the run\<close>

lemma disk_simps [simp]:
  "disk (say l w) = disk w" "disk (send q w) = disk w"
  "disk (w \<lparr> authorCache := a \<rparr>) = disk w" "disk (w \<lparr> categoryCache := a \<rparr>) = disk w"
  "disk (w \<lparr> tagCache := a \<rparr>) = disk w" "disk (w \<lparr> siteDomain := d \<rparr>) = disk w"
  by (simp_all add: disk_def)

lemma cache_pages_disk:
  "disk (snd (snd (cache_pages srv endpoint page totalPages cache w))) = disk w"
proof (induction srv endpoint page totalPages cache w rule: cache_pages.induct)
  case (1 srv endpoint page totalPages cache w)
  show ?case
  proof (cases "int page \<le> totalPages")
    case False
    then show ?thesis by (simp add: cache_pages.simps [of srv endpoint page totalPages cache w])
  next
    case True
    show ?thesis
    proof (cases "get_terms srv (length (requests w)) endpoint page")
      case (Inl error)
      with True show ?thesis
        by (simp add: cache_pages.simps [of srv endpoint page totalPages cache w])
    next
      case (Inr response)
      from "1.IH" [OF True Inr] True Inr show ?thesis
        by (simp add: cache_pages.simps [of srv endpoint page totalPages cache w])
    qed
  qed
qed

lemma fetchAndCacheAll_disk:
  "disk (snd (fetchAndCacheAll srv endpoint cache logName w)) = disk w"
proof -
  obtain e c w1 where r: "cache_pages srv endpoint 1 1 cache (say (Log (FetchingAll logName)) w)
      = (e, c, w1)"
    by (metis prod_cases3)
  with cache_pages_disk [of srv endpoint 1 1 cache "say (Log (FetchingAll logName)) w"]
  have "disk w1 = disk w" by simp
  with r show ?thesis
    by (cases e) (simp_all add: fetchAndCacheAll_def)
qed

lemma prefetch_disk: "disk (prefetch srv cr w) = disk w"
proof -
  let ?w0 = "setupApiClient cr (say (Log Banner) w)"
  obtain a w1 where 1: "fetchAndCacheAll srv ''/users'' (authorCache ?w0) ''users'' ?w0 = (a, w1)"
    by (cases "fetchAndCacheAll srv ''/users'' (authorCache ?w0) ''users'' ?w0")
  obtain c w2 where 2: "fetchAndCacheAll srv ''/categories'' (categoryCache w1) ''categories''
      (w1 \<lparr> authorCache := a \<rparr>) = (c, w2)"
    by (cases "fetchAndCacheAll srv ''/categories'' (categoryCache w1) ''categories''
      (w1 \<lparr> authorCache := a \<rparr>)")
  obtain t w3 where 3: "fetchAndCacheAll srv ''/tags'' (tagCache w2) ''tags''
      (w2 \<lparr> categoryCache := c \<rparr>) = (t, w3)"
    by (cases "fetchAndCacheAll srv ''/tags'' (tagCache w2) ''tags'' (w2 \<lparr> categoryCache := c \<rparr>)")
  have "disk ?w0 = disk w" by (simp add: setupApiClient_def)
  moreover have "disk w1 = disk ?w0"
    using fetchAndCacheAll_disk [of srv "''/users''" "authorCache ?w0" "''users''" ?w0] 1 by simp
  moreover have "disk w2 = disk w1"
    using fetchAndCacheAll_disk [of srv "''/categories''" "categoryCache w1" "''categories''"
        "w1 \<lparr> authorCache := a \<rparr>"] 2 by simp
  moreover have "disk w3 = disk w2"
    using fetchAndCacheAll_disk [of srv "''/tags''" "tagCache w2" "''tags''"
        "w2 \<lparr> categoryCache := c \<rparr>"] 3 by simp
  ultimately show ?thesis
    using 1 2 3 by (simp add: prefetch_def Let_def)
qed

lemma getPostTypes_disk: "disk (snd (getPostTypes srv w)) = disk w"
  by (simp add: getPostTypes_def Let_def split: sum.splits)

lemma fetch_pages_disk:
  "disk (snd (fetch_pages srv postType page totalPages allItems w)) = disk w"
proof (induction srv postType page totalPages allItems w rule: fetch_pages.induct)
  case (1 srv postType page totalPages allItems w)
  show ?case
  proof (cases "int page \<le> totalPages")
    case False
    then show ?thesis
      by (simp add: fetch_pages.simps [of srv postType page totalPages allItems w])
  next
    case True
    show ?thesis
    proof (cases "get_items srv (length (requests w)) postType page")
      case (Inl error)
      with True show ?thesis
        by (simp add: fetch_pages.simps [of srv postType page totalPages allItems w])
    next
      case (Inr response)
      let ?tp = "if page = 1 then total_or_one (x_wp_totalpages response) else totalPages"
      let ?w1 = "send (GetPage postType 50 page) w"
      let ?w2 = "if page = 1 then say (Log (FoundItems (x_wp_total response) ?tp)) ?w1 else ?w1"
      let ?items = "if length (page_data response) > 0 then allItems @ page_data response
                    else allItems"
      let ?w3 = "if length (page_data response) > 0
                 then say (Log (FetchedPage page ?tp (length ?items))) ?w2 else ?w2"
      have ih: "disk (snd (fetch_pages srv postType (page + 1) ?tp ?items ?w3)) = disk ?w3"
        using "1.IH" [OF True Inr refl refl refl refl refl] .
      have same: "disk ?w3 = disk w"
        by simp
      have step: "fetch_pages srv postType page totalPages allItems w
                    = fetch_pages srv postType (page + 1) ?tp ?items ?w3"
        using True Inr by (subst fetch_pages.simps) (simp add: Let_def)
      show ?thesis
        by (simp only: step ih same)
    qed
  qed
qed

lemma fetchPaginatedData_disk: "disk (snd (fetchPaginatedData srv postType w)) = disk w"
proof -
  obtain r w1 where f: "fetch_pages srv postType 1 1 [] (say (Log (StartingFetch postType)) w)
      = (r, w1)"
    by (cases "fetch_pages srv postType 1 1 [] (say (Log (StartingFetch postType)) w)")
  with fetch_pages_disk [of srv postType 1 1 "[]" "say (Log (StartingFetch postType)) w"]
  have "disk w1 = disk w" by simp
  with f show ?thesis
    by (cases r) (simp_all add: fetchPaginatedData_def)
qed

lemma collect_items_disk: "disk (snd (collect_items srv types acc w)) = disk w"
proof (induction types arbitrary: acc w)
  case Nil
  show ?case by simp
next
  case (Cons t types)
  obtain items w1 where f: "fetchPaginatedData srv t w = (items, w1)"
    by (cases "fetchPaginatedData srv t w")
  with fetchPaginatedData_disk [of srv t w] have "disk w1 = disk w" by simp
  with f Cons.IH show ?case by simp
qed

lemma fetch_first_page_error:
  assumes "get_items srv (length (requests w)) postType 1 = Inl error"
  shows "fetch_pages srv postType 1 1 [] w = (Inl error, send (GetPage postType 50 1) w)"
  using assms by (subst fetch_pages.simps) simp

lemma availableTypes_slugs:
  "map (\<lambda>t. or_empty (rest_base t)) (filter (\<lambda>t. viewable t \<and> or_empty (rest_base t) \<noteq> []) data)
     = viewable_slugs data"
  by (induction data) (auto simp: viewable_slugs_def or_empty_def split: option.splits)

text \<open>
  Claim C9. If the discovery of post types succeeds and the loop over the discovered types
  collects no item, the process ends with status 0, no directory and no file has been created,
  and the last line on the console says that no data was extracted.
\<close>

theorem no_items_no_report:
  assumes "fst (getPostTypes srv (prefetch srv cr w)) = Inr postTypes"
    and "fst (collect_items srv postTypes [] (snd (getPostTypes srv (prefetch srv cr w)))) = []"
  shows "fst (main env srv cr w) = 0
       \<and> files (snd (main env srv cr w)) = files w
       \<and> directories (snd (main env srv cr w)) = directories w
       \<and> last (console (snd (main env srv cr w))) = Log NoDataExtracted"
proof -
  obtain w1 where g: "getPostTypes srv (prefetch srv cr w) = (Inr postTypes, w1)"
    using assms(1) by (cases "getPostTypes srv (prefetch srv cr w)") simp
  obtain w2 where c: "collect_items srv postTypes [] w1 = ([], w2)"
    using assms(2) g by (cases "collect_items srv postTypes [] w1") simp
  have m: "main env srv cr w = (0, say (Log NoDataExtracted) w2)"
    using g c by (simp add: main_def createAndSaveReport_def)
  have "disk w2 = disk w1"
    using collect_items_disk [of srv postTypes "[]" w1] c by simp
  also have "\<dots> = disk (prefetch srv cr w)"
    using getPostTypes_disk [of srv "prefetch srv cr w"] g by simp
  also have "\<dots> = disk w"
    by (rule prefetch_disk)
  finally have "disk w2 = disk w" .
  then show ?thesis
    using m by (simp add: disk_def)
qed


theorem no_items_no_report_witness:
  "fst (getPostTypes empty_server (prefetch empty_server example_credentials initial_world))
     = Inr [''posts'', ''pages'']
   \<and> fst (collect_items empty_server [''posts'', ''pages''] []
        (snd (getPostTypes empty_server (prefetch empty_server example_credentials initial_world))))
       = []
   \<and> fst (main example_environment empty_server example_credentials initial_world) = 0
   \<and> files (snd (main example_environment empty_server example_credentials initial_world)) = []
   \<and> directories (snd (main example_environment empty_server example_credentials initial_world))
       = []"
proof -
  have a: "fst (getPostTypes empty_server (prefetch empty_server example_credentials initial_world))
     = Inr [''posts'', ''pages'']"
    by (simp add: getPostTypes_def empty_server_def Let_def)
  have f: "fetch_pages empty_server t 1 1 [] w
     = (Inl (HttpError 404 ''Request failed with status code 404''), send (GetPage t 50 1) w)"
    for t w
    by (rule fetch_first_page_error) (simp add: empty_server_def)
  have b: "fst (collect_items empty_server [''posts'', ''pages''] [] w) = []" for w
    by (simp add: fetchPaginatedData_def f del: One_nat_def)
  show ?thesis
    using no_items_no_report [OF a b, of example_environment] a b
    by (simp add: initial_world_def)
qed



text \<open>
  Claim C8. When the discovery request succeeds, \<^verbatim>\<open>getPostTypes\<close> returns the slugs of
  the viewable types with a non-empty slug, or \<open>posts\<close> and \<open>pages\<close> when there is none; when
  the request is rejected the process exits with status 1, which is then the status of
  \<^verbatim>\<open>main\<close>.
\<close>

theorem discover_post_types:
  "(get_types srv (length (requests w)) = Inr data \<longrightarrow>
      fst (getPostTypes srv w)
        = Inr (if viewable_slugs data = [] then [''posts'', ''pages''] else viewable_slugs data))
   \<and> (get_types srv (length (requests w)) = Inl error \<longrightarrow> fst (getPostTypes srv w) = Inl 1)
   \<and> (get_types srv (length (requests (prefetch srv cr w0))) = Inl error \<longrightarrow>
        fst (main env srv cr w0) = 1)"
  by (simp add: getPostTypes_def main_def Let_def availableTypes_slugs split: prod.splits)

theorem discover_post_types_witness:
  "get_types broken_server (length (requests initial_world)) = Inr example_types
   \<and> fst (getPostTypes broken_server initial_world) = Inr [''posts'', ''media'']
   \<and> get_types empty_server (length (requests initial_world)) = Inr []
   \<and> fst (getPostTypes empty_server initial_world) = Inr [''posts'', ''pages'']
   \<and> get_types failing_server
        (length (requests (prefetch failing_server example_credentials initial_world)))
       = Inl (NetworkError ''timeout'')
   \<and> fst (getPostTypes failing_server
             (prefetch failing_server example_credentials initial_world)) = Inl 1
   \<and> fst (main example_environment failing_server example_credentials initial_world) = 1"
proof -
  have a: "get_types broken_server (length (requests initial_world)) = Inr example_types"
    by (simp add: broken_server_def)
  have b: "get_types empty_server (length (requests initial_world)) = Inr []"
    by (simp add: empty_server_def)
  have c: "get_types failing_server
        (length (requests (prefetch failing_server example_credentials initial_world)))
       = Inl (NetworkError ''timeout'')"
    by (simp add: failing_server_def)
  have v: "viewable_slugs example_types = [''posts'', ''media'']" "viewable_slugs [] = []"
    by (simp_all add: viewable_slugs_def example_types_def)
  show ?thesis
    using discover_post_types [of broken_server initial_world example_types]
      discover_post_types [of empty_server initial_world "[]"]
      discover_post_types [of failing_server
        "prefetch failing_server example_credentials initial_world" _
        "NetworkError ''timeout''" example_credentials initial_world example_environment]
      a b c
    by (simp add: v)
qed

text \<open>A run on the site whose first post type has no listing ends with status 0 and writes
  one report.\<close>

lemma run_with_one_missing_type:
  "fst (main example_environment mixed_server example_credentials initial_world) = 0"
  "map fst (files (snd (main example_environment mixed_server example_credentials initial_world)))
     = [''reports/example.com/2025-08-01T21-55-00-123Z-yoast-report.csv'']"
  by (simp_all add: main_def prefetch_def fetchAndCacheAll_def cache_pages.simps
      getPostTypes_def fetchPaginatedData_def fetch_pages.simps createAndSaveReport_def
      flatten_all_def getFeaturedImageData_begin_def flatten_item_def excerpt_cell_def
      mixed_server_def initial_world_def setupApiClient_def say_def send_def
      total_or_one_def or_empty_def Let_def example_credentials_def example_environment_def
      datetime_def bare_item_def)


end
